theory Spec2Isabelle
  imports Complex_Main "HOL-Library.Word" "HOL-Library.AList" "HOL-Library.Code_Target_Nat"
begin

section \<open>Habit tracker: state normalisation, persistence, streaks and event handlers\<close>

text \<open>
  A shallow embedding of \<^verbatim>\<open>state.js\<close> (normalizeState, loadState, saveState, toKey,
  computeStreak) and of the day-cell and import handlers of \<^verbatim>\<open>events.js\<close>.

  The program is JavaScript over loosely typed data, so the embedding carries a small
  universe of JavaScript data values and the ECMAScript operations the source applies to
  them (ToBoolean, typeof, property reads, ToString, object spread, JSON serialisation).
\<close>

subsection \<open>Strings\<close>

text \<open>A JavaScript string is a sequence of 16-bit code units.\<close>

type_synonym jsstring = "16 word list"

definition js :: "string \<Rightarrow> jsstring" where
  "js s = map of_char s"

text \<open>
  \<^verbatim>\<open>String.prototype.trim\<close> removes ECMAScript WhiteSpace and LineTerminator code
  units from both ends: TAB, LF, VT, FF, CR, SP, NBSP, U+1680, U+2000..U+200A, U+2028,
  U+2029, U+202F, U+205F, U+3000 and U+FEFF.
\<close>

definition isWhiteSpace :: "16 word \<Rightarrow> bool" where
  "isWhiteSpace c \<longleftrightarrow>
     c \<in> set [0x9, 0xA, 0xB, 0xC, 0xD, 0x20, 0xA0, 0x1680, 0x2028, 0x2029, 0x202F, 0x205F,
              0x3000, 0xFEFF]
     \<or> (0x2000 \<le> c \<and> c \<le> 0x200A)"

definition trim :: "jsstring \<Rightarrow> jsstring" where
  "trim s = rev (dropWhile isWhiteSpace (rev (dropWhile isWhiteSpace s)))"

text \<open>\<^verbatim>\<open>s.padStart(2, "0")\<close>\<close>

definition padStart2 :: "jsstring \<Rightarrow> jsstring" where
  "padStart2 s = replicate (2 - length s) 0x30 @ s"

subsection \<open>Values\<close>

text \<open>
  Numbers are IEEE doubles. The program never computes with the numbers it is handed; it
  only tests them for truthiness, converts them to strings and serialises them. Finite
  numbers are therefore carried as rationals (a superset of the finite doubles), with the
  four special values kept apart.
\<close>

datatype jsnum = NaN | PosInfinity | NegInfinity | NegZero | Finite rat

text \<open>
  The data values: everything \<^verbatim>\<open>JSON.parse\<close> can produce, plus \<^verbatim>\<open>undefined\<close>. An
  object is the list of its own enumerable data properties, in property order; a read
  takes the first binding of a key. No property holds a function.
\<close>

datatype jsval =
    JUndefined
  | JNull
  | JBool bool
  | JNum jsnum
  | JStr jsstring
  | JArr "jsval list"
  | JObj "(jsstring \<times> jsval) list"

datatype js_error = TypeError | SyntaxError | Error jsstring | QuotaExceededError

text \<open>ToBoolean.\<close>

fun truthy :: "jsval \<Rightarrow> bool" where
  "truthy JUndefined = False"
| "truthy JNull = False"
| "truthy (JBool b) = b"
| "truthy (JNum n) = (n \<noteq> NaN \<and> n \<noteq> NegZero \<and> n \<noteq> Finite 0)"
| "truthy (JStr s) = (s \<noteq> [])"
| "truthy (JArr xs) = True"
| "truthy (JObj ps) = True"

text \<open>\<^verbatim>\<open>typeof v === "object"\<close>, \<^verbatim>\<open>typeof v === "string"\<close>, \<^verbatim>\<open>Array.isArray(v)\<close>.\<close>

fun typeofObject :: "jsval \<Rightarrow> bool" where
  "typeofObject JNull = True"
| "typeofObject (JArr xs) = True"
| "typeofObject (JObj ps) = True"
| "typeofObject _ = False"

fun typeofString :: "jsval \<Rightarrow> bool" where
  "typeofString (JStr s) = True"
| "typeofString _ = False"

fun isArray :: "jsval \<Rightarrow> bool" where
  "isArray (JArr xs) = True"
| "isArray _ = False"

fun isNullish :: "jsval \<Rightarrow> bool" where
  "isNullish JUndefined = True"
| "isNullish JNull = True"
| "isNullish _ = False"

text \<open>
  \<^verbatim>\<open>v.k\<close> for a value \<open>v\<close> that is not null or undefined, and a name \<open>k\<close> that no
  built-in prototype carries and that is neither an array index nor \<^verbatim>\<open>length\<close>. The
  names the program reads this way are \<^verbatim>\<open>habits\<close>, \<^verbatim>\<open>id\<close>, \<^verbatim>\<open>name\<close> and \<^verbatim>\<open>log\<close>:
  on a plain object the own property, on anything else \<^verbatim>\<open>undefined\<close>.
\<close>

fun get :: "jsval \<Rightarrow> jsstring \<Rightarrow> jsval" where
  "get (JObj ps) k = (case map_of ps k of Some v \<Rightarrow> v | None \<Rightarrow> JUndefined)"
| "get _ k = JUndefined"

text \<open>The same read on a value that may be null or undefined, where it raises.\<close>

definition member :: "jsval \<Rightarrow> jsstring \<Rightarrow> js_error + jsval" where
  "member v k = (if isNullish v then Inl TypeError else Inr (get v k))"

text \<open>
  The names \<^verbatim>\<open>Object.prototype\<close> carries. Each holds a function, except \<^verbatim>\<open>__proto__\<close>,
  an accessor that yields the prototype object; all of them read as truthy.
\<close>

definition objectPrototypeNames :: "jsstring list" where
  "objectPrototypeNames = map js
     [''constructor'', ''hasOwnProperty'', ''isPrototypeOf'', ''propertyIsEnumerable'',
      ''toLocaleString'', ''toString'', ''valueOf'', ''__proto__'', ''__defineGetter__'',
      ''__defineSetter__'', ''__lookupGetter__'', ''__lookupSetter__'']"

text \<open>
  ToBoolean of \<^verbatim>\<open>o[k]\<close> for an arbitrary key: on a plain object the own property, else
  what \<^verbatim>\<open>Object.prototype\<close> supplies. On arrays and primitives the keys the program uses
  (date keys, which contain \<^verbatim>\<open>-\<close>) name no element, length or method.
\<close>

fun truthyAt :: "jsval \<Rightarrow> jsstring \<Rightarrow> bool" where
  "truthyAt (JObj ps) k =
     (case map_of ps k of Some v \<Rightarrow> truthy v | None \<Rightarrow> k \<in> set objectPrototypeNames)"
| "truthyAt _ k = False"

subsection \<open>The platform\<close>

text \<open>
  What the browser supplies. \<open>numberToString\<close> is Number::toString; \<open>storageAccepts\<close>
  tells whether \<^verbatim>\<open>localStorage.setItem\<close> takes a text or raises (quota).
  \<open>resolveLocalTime\<close> is the local time zone: for a local date and time as \<^verbatim>\<open>setDate\<close>
  computes it, the local date and time the \<^verbatim>\<open>Date\<close> then reads back, LocalTime(UTC(t)).
  That is \<open>t\<close> itself wherever the local time \<open>t\<close> exists; where a clock change skips
  \<open>t\<close>, it is a later local time, possibly on the following day.
  The ambient record holds what one call of normalizeState reads from outside: whether
  \<^verbatim>\<open>crypto.randomUUID\<close> exists and the value it returns while entry \<open>i\<close> is processed,
  and the value of \<^verbatim>\<open>Date.now()\<close> read there.
\<close>

text \<open>
  A \<^verbatim>\<open>Date\<close> is an instant. The program reads it through \<^verbatim>\<open>getFullYear\<close>,
  \<^verbatim>\<open>getMonth\<close> (from 0) and \<^verbatim>\<open>getDate\<close>, in local time, and \<^verbatim>\<open>setDate\<close> keeps its
  local time of day; so it is carried as its local date and its time within the day, in
  milliseconds.
\<close>

record date =
  getFullYear :: int
  getMonth :: nat
  getDate :: nat
  timeWithinDay :: nat

datatype raw_text = Blank | Json jsval | Malformed

record platform =
  numberToString :: "jsnum \<Rightarrow> jsstring"
  storageAccepts :: "raw_text \<Rightarrow> bool"
  resolveLocalTime :: "date \<Rightarrow> date"

record ambient =
  randomUUID :: "(nat \<Rightarrow> jsstring) option"
  dateNow :: "nat \<Rightarrow> nat"

text \<open>
  \<^verbatim>\<open>String(v)\<close>. An array joins its elements with commas, null and undefined elements
  giving the empty string. A plain object goes through OrdinaryToPrimitive: an own
  \<^verbatim>\<open>toString\<close> property hides \<^verbatim>\<open>Object.prototype.toString\<close> and, holding no function,
  is skipped; \<^verbatim>\<open>valueOf\<close> then yields no primitive, and the conversion raises TypeError.
\<close>

fun toString :: "platform \<Rightarrow> jsval \<Rightarrow> js_error + jsstring"
  and join :: "platform \<Rightarrow> jsval list \<Rightarrow> js_error + jsstring" where
  "toString P JUndefined = Inr (js ''undefined'')"
| "toString P JNull = Inr (js ''null'')"
| "toString P (JBool b) = Inr (js (if b then ''true'' else ''false''))"
| "toString P (JNum n) = Inr (numberToString P n)"
| "toString P (JStr s) = Inr s"
| "toString P (JArr xs) = join P xs"
| "toString P (JObj ps) =
     (if js ''toString'' \<in> fst ` set ps then Inl TypeError else Inr (js ''[object Object]''))"
| "join P [] = Inr []"
| "join P (x # xs) =
     (case (if isNullish x then Inr [] else toString P x) of
        Inl e \<Rightarrow> Inl e
      | Inr s \<Rightarrow>
          (if xs = [] then Inr s
           else (case join P xs of Inl e \<Rightarrow> Inl e | Inr t \<Rightarrow> Inr (s @ js '','' @ t))))"

text \<open>
  Object spread \<^verbatim>\<open>{ ...v }\<close>: the own enumerable properties of \<open>v\<close>; index keys for an
  array or a string, nothing for the other primitives.
\<close>

definition indexKeys :: "platform \<Rightarrow> nat \<Rightarrow> jsstring list" where
  "indexKeys P n = map (\<lambda>i. numberToString P (Finite (of_nat i))) [0..<n]"

fun spread :: "platform \<Rightarrow> jsval \<Rightarrow> (jsstring \<times> jsval) list" where
  "spread P (JObj ps) = ps"
| "spread P (JArr xs) = zip (indexKeys P (length xs)) xs"
| "spread P (JStr s) = zip (indexKeys P (length s)) (map (\<lambda>c. JStr [c]) s)"
| "spread P _ = []"

subsection \<open>normalizeState\<close>

text \<open>
  \<^verbatim>\<open>typeof crypto !== "undefined" && crypto.randomUUID
     ? crypto.randomUUID() : `habit-${Date.now()}-${index}`\<close>
\<close>

definition freshId :: "platform \<Rightarrow> ambient \<Rightarrow> nat \<Rightarrow> jsstring" where
  "freshId P A index =
     (case randomUUID A of
        Some uuid \<Rightarrow> uuid index
      | None \<Rightarrow> js ''habit-'' @ numberToString P (Finite (of_nat (dateNow A index)))
                @ js ''-'' @ numberToString P (Finite (of_nat index)))"

text \<open>\<^verbatim>\<open>(h && h.id && String(h.id)) || <fresh id>\<close>\<close>

definition habitId :: "platform \<Rightarrow> ambient \<Rightarrow> nat \<Rightarrow> jsval \<Rightarrow> js_error + jsstring" where
  "habitId P A index h =
     (if truthy h \<and> truthy (get h (js ''id'')) then
        (case toString P (get h (js ''id'')) of
           Inl e \<Rightarrow> Inl e
         | Inr s \<Rightarrow> Inr (if s \<noteq> [] then s else freshId P A index))
      else Inr (freshId P A index))"

text \<open>\<^verbatim>\<open>(h && typeof h.name === "string" && h.name.trim()) || "Untitled habit"\<close>\<close>

definition habitName :: "jsval \<Rightarrow> jsstring" where
  "habitName h =
     (case (if truthy h then get h (js ''name'') else JUndefined) of
        JStr s \<Rightarrow> (if trim s \<noteq> [] then trim s else js ''Untitled habit'')
      | _ \<Rightarrow> js ''Untitled habit'')"

text \<open>
  \<^verbatim>\<open>h && h.log && typeof h.log === "object" && !Array.isArray(h.log) ? { ...h.log } : {}\<close>
\<close>

definition habitLog :: "platform \<Rightarrow> jsval \<Rightarrow> (jsstring \<times> jsval) list" where
  "habitLog P h =
     (if truthy h \<and> truthy (get h (js ''log'')) \<and> typeofObject (get h (js ''log''))
         \<and> \<not> isArray (get h (js ''log''))
      then spread P (get h (js ''log''))
      else [])"

definition normalizeHabit :: "platform \<Rightarrow> ambient \<Rightarrow> nat \<Rightarrow> jsval \<Rightarrow> js_error + jsval" where
  "normalizeHabit P A index h =
     (case habitId P A index h of
        Inl e \<Rightarrow> Inl e
      | Inr i \<Rightarrow> Inr (JObj [(js ''id'', JStr i), (js ''name'', JStr (habitName h)),
                           (js ''log'', JObj (habitLog P h))]))"

text \<open>\<^verbatim>\<open>habitsInput.map((h, index) => ...)\<close>, left to right; the first raise ends it.\<close>

fun mapHabits :: "platform \<Rightarrow> ambient \<Rightarrow> nat \<Rightarrow> jsval list \<Rightarrow> js_error + jsval list" where
  "mapHabits P A index [] = Inr []"
| "mapHabits P A index (h # hs) =
     (case normalizeHabit P A index h of
        Inl e \<Rightarrow> Inl e
      | Inr h' \<Rightarrow>
          (case mapHabits P A (Suc index) hs of
             Inl e \<Rightarrow> Inl e
           | Inr hs' \<Rightarrow> Inr (h' # hs')))"

text \<open>
  \<^verbatim>\<open>const raw = source && typeof source === "object" ? source : {};
  const habitsInput = Array.isArray(raw.habits) ? raw.habits : [];\<close>
\<close>

definition habitsInput :: "jsval \<Rightarrow> jsval list" where
  "habitsInput source =
     (let raw = (if truthy source \<and> typeofObject source then source else JObj [])
      in case get raw (js ''habits'') of JArr xs \<Rightarrow> xs | _ \<Rightarrow> [])"

definition normalizeState :: "platform \<Rightarrow> ambient \<Rightarrow> jsval \<Rightarrow> js_error + jsval" where
  "normalizeState P A source =
     (case mapHabits P A 0 (habitsInput source) of
        Inl e \<Rightarrow> Inl e
      | Inr hs \<Rightarrow> Inr (JObj [(js ''habits'', JArr hs)]))"

subsection \<open>Dates, toKey and computeStreak\<close>

definition inLeapYear :: "int \<Rightarrow> bool" where
  "inLeapYear y \<longleftrightarrow> (y mod 4 = 0 \<and> y mod 100 \<noteq> 0) \<or> y mod 400 = 0"

definition daysInMonth :: "int \<Rightarrow> nat \<Rightarrow> nat" where
  "daysInMonth y m =
     (if m = 1 then (if inLeapYear y then 29 else 28)
      else if m \<in> {3, 5, 8, 10} then 30 else 31)"

text \<open>
  \<^verbatim>\<open>d.setDate(dt)\<close>. The new local time is MakeDate(MakeDay(year, month, dt), time within
  the day), where MakeDay counts \<open>dt - 1\<close> days from the first of the month: a day of the
  month below 1 falls into the months before, one beyond the month's end into the months
  after. The \<^verbatim>\<open>Date\<close> stores the instant of that local time and reads it back through
  the time zone. (The range of instants a \<^verbatim>\<open>Date\<close> can hold, 100 million days either
  side of 1970, is taken not to be left.)
\<close>

function rollDate :: "date \<Rightarrow> int \<Rightarrow> date" where
  "rollDate d dt =
     (if dt < 1 then
        (if 0 < getMonth d then
           rollDate (d\<lparr>getMonth := getMonth d - 1\<rparr>)
             (dt + int (daysInMonth (getFullYear d) (getMonth d - 1)))
         else rollDate (d\<lparr>getFullYear := getFullYear d - 1, getMonth := 11\<rparr>) (dt + 31))
      else if int (daysInMonth (getFullYear d) (getMonth d)) < dt then
        (if getMonth d < 11 then
           rollDate (d\<lparr>getMonth := getMonth d + 1\<rparr>)
             (dt - int (daysInMonth (getFullYear d) (getMonth d)))
         else rollDate (d\<lparr>getFullYear := getFullYear d + 1, getMonth := 0\<rparr>)
             (dt - int (daysInMonth (getFullYear d) (getMonth d))))
      else d\<lparr>getDate := nat dt\<rparr>)"
  by pat_completeness auto
termination
  by (relation "measure (\<lambda>(d, dt). nat (if dt < 1 then 33 - dt else dt))")
    (auto simp: daysInMonth_def)

definition setDate :: "platform \<Rightarrow> date \<Rightarrow> int \<Rightarrow> date" where
  "setDate P d dt = resolveLocalTime P (rollDate d dt)"

text \<open>
  \<^verbatim>\<open>const y = date.getFullYear();
  const m = String(date.getMonth() + 1).padStart(2, "0");
  const d = String(date.getDate()).padStart(2, "0");
  return `${y}-${m}-${d}`;\<close>
\<close>

definition toKey :: "platform \<Rightarrow> date \<Rightarrow> jsstring" where
  "toKey P date =
     (let y = numberToString P (Finite (of_int (getFullYear date)));
          m = padStart2 (numberToString P (Finite (of_nat (getMonth date + 1))));
          d = padStart2 (numberToString P (Finite (of_nat (getDate date))))
      in y @ js ''-'' @ m @ js ''-'' @ d)"

text \<open>
  The loop of computeStreak: \<^verbatim>\<open>for (let i = 0; i < 365; i++)\<close>, with
  \<^verbatim>\<open>const d = new Date(today); d.setDate(today.getDate() - i); const key = toKey(d);\<close>
  in each round, leaving at the first round whose entry is not truthy.
\<close>

function streakLoop :: "platform \<Rightarrow> date \<Rightarrow> jsval \<Rightarrow> nat \<Rightarrow> nat \<Rightarrow> nat" where
  "streakLoop P today habit i streak =
     (if i < 365 then
        (if truthyAt (get habit (js ''log''))
              (toKey P (setDate P today (int (getDate today) - int i)))
         then streakLoop P today habit (Suc i) (Suc streak)
         else streak)
      else streak)"
  by pat_completeness auto
termination
  by (relation "measure (\<lambda>(P, today, habit, i, streak). 365 - i)") auto

text \<open>
  computeStreak, with \<open>today\<close> the date that \<^verbatim>\<open>new Date()\<close> gives:
  \<^verbatim>\<open>if (!habit || !habit.log) return 0;\<close> and then the loop.
\<close>

definition computeStreak :: "platform \<Rightarrow> date \<Rightarrow> jsval \<Rightarrow> nat" where
  "computeStreak P today habit =
     (if \<not> truthy habit \<or> \<not> truthy (get habit (js ''log'')) then 0
      else streakLoop P today habit 0 0)"

subsection \<open>Persistence\<close>

text \<open>
  A stored or imported text is carried by what \<^verbatim>\<open>JSON.parse\<close> makes of it: the empty
  text, a text that parses to a value, or a non-empty text that does not parse.
\<close>

fun JSON_parse :: "raw_text \<Rightarrow> js_error + jsval" where
  "JSON_parse (Json v) = Inr v"
| "JSON_parse _ = Inl SyntaxError"

text \<open>
  What a value becomes once serialised by \<^verbatim>\<open>JSON.stringify\<close>: \<^verbatim>\<open>undefined\<close> has no
  serialisation (it is left out of an object and written as \<^verbatim>\<open>null\<close> in an array), NaN
  and the infinities are written as \<^verbatim>\<open>null\<close>, and \<^verbatim>\<open>-0\<close> as \<^verbatim>\<open>0\<close>.
\<close>

fun serialised :: "jsval \<Rightarrow> jsval option"
  and serialisedProps :: "(jsstring \<times> jsval) list \<Rightarrow> (jsstring \<times> jsval) list"
  and serialisedElems :: "jsval list \<Rightarrow> jsval list" where
  "serialised JUndefined = None"
| "serialised JNull = Some JNull"
| "serialised (JBool b) = Some (JBool b)"
| "serialised (JNum n) =
     Some (case n of Finite q \<Rightarrow> JNum (Finite q) | NegZero \<Rightarrow> JNum (Finite 0) | _ \<Rightarrow> JNull)"
| "serialised (JStr s) = Some (JStr s)"
| "serialised (JArr xs) = Some (JArr (serialisedElems xs))"
| "serialised (JObj ps) = Some (JObj (serialisedProps ps))"
| "serialisedProps [] = []"
| "serialisedProps (p # ps) =
     (case serialised (snd p) of
        None \<Rightarrow> serialisedProps ps
      | Some v \<Rightarrow> (fst p, v) # serialisedProps ps)"
| "serialisedElems [] = []"
| "serialisedElems (x # xs) =
     (case serialised x of None \<Rightarrow> JNull | Some v \<Rightarrow> v) # serialisedElems xs"

text \<open>
  The text \<^verbatim>\<open>localStorage.setItem(key, JSON.stringify(v))\<close> stores. For \<^verbatim>\<open>undefined\<close>
  the result of \<^verbatim>\<open>JSON.stringify\<close> is \<^verbatim>\<open>undefined\<close>, stored as a text that does not parse.
\<close>

definition JSON_stringify :: "jsval \<Rightarrow> raw_text" where
  "JSON_stringify v = (case serialised v of None \<Rightarrow> Malformed | Some j \<Rightarrow> Json j)"

definition STORAGE_KEY :: jsstring where
  "STORAGE_KEY = js ''habit-tracker-state-v1''"

text \<open>
  The module state and what the handlers touch outside it. \<open>saveCalls\<close> records the
  arguments saveState was called with, \<open>uncaught\<close> the exceptions that left a handler.
\<close>

record world =
  state :: jsval
  localStorage :: "jsstring \<Rightarrow> raw_text option"
  alerts :: "jsstring list"
  renders :: nat
  fileInputValue :: jsstring
  saveCalls :: "jsval list"
  uncaught :: "js_error list"

definition emptyState :: jsval where
  "emptyState = JObj [(js ''habits'', JArr [])]"

text \<open>loadState: every failure inside the \<^verbatim>\<open>try\<close> gives the empty state.\<close>

definition loadState :: "platform \<Rightarrow> ambient \<Rightarrow> world \<Rightarrow> jsval" where
  "loadState P A w =
     (case localStorage w STORAGE_KEY of
        None \<Rightarrow> emptyState
      | Some Blank \<Rightarrow> emptyState
      | Some raw \<Rightarrow>
          (case JSON_parse raw of
             Inl e \<Rightarrow> emptyState
           | Inr parsed \<Rightarrow>
               (case normalizeState P A parsed of
                  Inl e \<Rightarrow> emptyState
                | Inr s \<Rightarrow> s)))"

text \<open>
  saveState: \<^verbatim>\<open>state = normalizeState(nextState);
  localStorage.setItem(STORAGE_KEY, JSON.stringify(state));\<close>
  The result is the exception raised, if any, and the world left behind.
\<close>

definition saveState :: "platform \<Rightarrow> ambient \<Rightarrow> world \<Rightarrow> jsval \<Rightarrow> js_error option \<times> world" where
  "saveState P A w nextState =
     (let w0 = w\<lparr>saveCalls := saveCalls w @ [nextState]\<rparr> in
      case normalizeState P A nextState of
        Inl e \<Rightarrow> (Some e, w0)
      | Inr s \<Rightarrow>
          (let w1 = w0\<lparr>state := s\<rparr>; raw = JSON_stringify s in
           if storageAccepts P raw
           then (None, w1\<lparr>localStorage := (localStorage w1)(STORAGE_KEY \<mapsto> raw)\<rparr>)
           else (Some QuotaExceededError, w1)))"

text \<open>render reads the state and rebuilds the page; only the call is recorded.\<close>

definition render :: "world \<Rightarrow> world" where
  "render w = w\<lparr>renders := Suc (renders w)\<rparr>"

definition alert :: "string \<Rightarrow> world \<Rightarrow> world" where
  "alert msg w = w\<lparr>alerts := alerts w @ [js msg]\<rparr>"

subsection \<open>The day-cell click handler\<close>

text \<open>
  \<^verbatim>\<open>target.dataset.habitId\<close> is a string, or \<^verbatim>\<open>undefined\<close> when the attribute is absent.
\<close>

definition datasetValue :: "jsstring option \<Rightarrow> jsval" where
  "datasetValue a = (case a of None \<Rightarrow> JUndefined | Some s \<Rightarrow> JStr s)"

text \<open>
  \<^verbatim>\<open>log[dayKey] = b\<close> on the fresh plain object \<open>log\<close>, for a boolean \<open>b\<close>: an own
  property is overwritten in place; the inherited \<^verbatim>\<open>__proto__\<close> setter ignores a
  boolean; any other key becomes a new own property. The new property is put last; where
  the key is an array index JavaScript lists it before the string keys, a difference in
  the order of the properties only, which no read through \<open>get\<close> observes.
\<close>

definition assignBool :: "(jsstring \<times> jsval) list \<Rightarrow> jsstring \<Rightarrow> bool \<Rightarrow> (jsstring \<times> jsval) list" where
  "assignBool ps k b =
     (if k \<notin> fst ` set ps \<and> k = js ''__proto__'' then ps
      else AList.update k (JBool b) ps)"

text \<open>
  \<^verbatim>\<open>const log = { ...h.log }; log[dayKey] = !log[dayKey]; return { ...h, log };\<close>
\<close>

definition toggled :: "platform \<Rightarrow> jsval \<Rightarrow> jsstring \<Rightarrow> jsval" where
  "toggled P h dayKey =
     (let log = spread P (get h (js ''log''));
          log' = assignBool log dayKey (\<not> truthyAt (JObj log) dayKey)
      in JObj (AList.update (js ''log'') (JObj log') (spread P h)))"

text \<open>
  \<^verbatim>\<open>state.habits.map(h => { if (h.id !== habitId) return h; ... })\<close>; reading \<^verbatim>\<open>h.id\<close>
  raises on a null or undefined entry.
\<close>

fun mapToggle :: "platform \<Rightarrow> jsval \<Rightarrow> jsstring \<Rightarrow> jsval list \<Rightarrow> js_error + jsval list" where
  "mapToggle P target dayKey [] = Inr []"
| "mapToggle P target dayKey (h # hs) =
     (case member h (js ''id'') of
        Inl e \<Rightarrow> Inl e
      | Inr v \<Rightarrow>
          (case mapToggle P target dayKey hs of
             Inl e \<Rightarrow> Inl e
           | Inr hs' \<Rightarrow> Inr ((if v \<noteq> target then h else toggled P h dayKey) # hs')))"

definition escaped :: "js_error \<Rightarrow> world \<Rightarrow> world" where
  "escaped e w = w\<lparr>uncaught := uncaught w @ [e]\<rparr>"

definition dayCellClick :: "platform \<Rightarrow> ambient \<Rightarrow> world \<Rightarrow> jsstring option \<Rightarrow> jsstring \<Rightarrow> world" where
  "dayCellClick P A w habitIdAttr dayKey =
     (case member (state w) (js ''habits'') of
        Inl e \<Rightarrow> escaped e w
      | Inr (JArr hs) \<Rightarrow>
          (case mapToggle P (datasetValue habitIdAttr) dayKey hs of
             Inl e \<Rightarrow> escaped e w
           | Inr nextHabits \<Rightarrow>
               (case saveState P A w (JObj [(js ''habits'', JArr nextHabits)]) of
                  (Some e, w') \<Rightarrow> escaped e w'
                | (None, w') \<Rightarrow> render w'))
      | Inr _ \<Rightarrow> escaped TypeError w)"

subsection \<open>The import handler\<close>

text \<open>
  The chosen file, if any, with the outcome of \<^verbatim>\<open>await file.text()\<close>. The handler is
  taken as one step: nothing else runs while the file is read.
\<close>

definition importAttempt :: "platform \<Rightarrow> ambient \<Rightarrow> world \<Rightarrow> js_error + raw_text \<Rightarrow> (js_error \<times> world) + world" where
  "importAttempt P A w file =
     (case file of
        Inl e \<Rightarrow> Inl (e, w)
      | Inr text \<Rightarrow>
          (case JSON_parse text of
             Inl e \<Rightarrow> Inl (e, w)
           | Inr data \<Rightarrow>
               (case member data (js ''habits'') of
                  Inl e \<Rightarrow> Inl (e, w)
                | Inr hs \<Rightarrow>
                    (if \<not> isArray hs then Inl (Error (js ''Invalid format''), w)
                     else (case saveState P A w data of
                             (Some e, w') \<Rightarrow> Inl (e, w')
                           | (None, w') \<Rightarrow>
                               Inr (alert ''Import complete. Data loaded.'' (render w')))))))"

definition importChange :: "platform \<Rightarrow> ambient \<Rightarrow> world \<Rightarrow> (js_error + raw_text) option \<Rightarrow> world" where
  "importChange P A w files =
     (case files of
        None \<Rightarrow> w
      | Some file \<Rightarrow>
          (let w' = (case importAttempt P A w file of
                       Inl (e, w1) \<Rightarrow> alert ''Import failed. Please check the JSON file format.'' w1
                     | Inr w1 \<Rightarrow> w1)
           in w'\<lparr>fileInputValue := []\<rparr>))"

subsection \<open>Shapes of states\<close>

text \<open>
  The AppState invariants of the data model: \<^verbatim>\<open>habits\<close> is an array, every habit has a
  non-empty string \<^verbatim>\<open>id\<close>, a non-empty string \<^verbatim>\<open>name\<close> and a plain object \<^verbatim>\<open>log\<close>.
\<close>

fun nonEmptyString :: "jsval \<Rightarrow> bool" where
  "nonEmptyString (JStr s) = (s \<noteq> [])"
| "nonEmptyString _ = False"

fun plainObject :: "jsval \<Rightarrow> bool" where
  "plainObject (JObj ps) = True"
| "plainObject _ = False"

definition wellFormedHabit :: "jsval \<Rightarrow> bool" where
  "wellFormedHabit h \<longleftrightarrow>
     nonEmptyString (get h (js ''id'')) \<and> nonEmptyString (get h (js ''name''))
     \<and> plainObject (get h (js ''log''))"

definition wellFormedState :: "jsval \<Rightarrow> bool" where
  "wellFormedState s \<longleftrightarrow>
     (case get s (js ''habits'') of JArr hs \<Rightarrow> list_all wellFormedHabit hs | _ \<Rightarrow> False)"

text \<open>
  An already-normalised state: exactly the objects normalizeState builds, with a
  non-empty id and a name that is non-empty and trimmed.
\<close>

definition normalizedHabit :: "jsval \<Rightarrow> bool" where
  "normalizedHabit h \<longleftrightarrow>
     (case h of
        JObj [(k1, JStr i), (k2, JStr n), (k3, JObj l)] \<Rightarrow>
          k1 = js ''id'' \<and> k2 = js ''name'' \<and> k3 = js ''log''
          \<and> i \<noteq> [] \<and> n \<noteq> [] \<and> trim n = n
      | _ \<Rightarrow> False)"

definition normalizedState :: "jsval \<Rightarrow> bool" where
  "normalizedState s \<longleftrightarrow>
     (case s of
        JObj [(k, JArr hs)] \<Rightarrow> k = js ''habits'' \<and> list_all normalizedHabit hs
      | _ \<Rightarrow> False)"

text \<open>A value that JSON can carry: no \<^verbatim>\<open>undefined\<close>, NaN, infinity or \<^verbatim>\<open>-0\<close> inside.\<close>

fun jsonValue :: "jsval \<Rightarrow> bool"
  and jsonProps :: "(jsstring \<times> jsval) list \<Rightarrow> bool"
  and jsonElems :: "jsval list \<Rightarrow> bool" where
  "jsonValue JUndefined = False"
| "jsonValue JNull = True"
| "jsonValue (JBool b) = True"
| "jsonValue (JNum n) = (case n of Finite q \<Rightarrow> True | _ \<Rightarrow> False)"
| "jsonValue (JStr s) = True"
| "jsonValue (JArr xs) = jsonElems xs"
| "jsonValue (JObj ps) = jsonProps ps"
| "jsonProps [] = True"
| "jsonProps (p # ps) = (jsonValue (snd p) \<and> jsonProps ps)"
| "jsonElems [] = True"
| "jsonElems (x # xs) = (jsonValue x \<and> jsonElems xs)"

text \<open>The entry that round \<open>i\<close> of the loop reads in the habit's log is truthy.\<close>

definition marked :: "platform \<Rightarrow> date \<Rightarrow> jsval \<Rightarrow> nat \<Rightarrow> bool" where
  "marked P today habit i =
     truthyAt (get habit (js ''log'')) (toKey P (setDate P today (int (getDate today) - int i)))"

subsection \<open>A concrete platform for examples\<close>

text \<open>
  Number::toString writes an integer below \<open>10\<^sup>2\<^sup>1\<close> in decimal. The examples only format
  such integers; on a fraction this formatter writes numerator and denominator. The time
  zone of this platform has no clock changes, as UTC has none.
\<close>

function digits :: "nat \<Rightarrow> jsstring" where
  "digits n = (if n < 10 then [0x30 + of_nat n] else digits (n div 10) @ [0x30 + of_nat (n mod 10)])"
  by pat_completeness auto
termination
  by (relation "measure id") auto

definition decimalInt :: "int \<Rightarrow> jsstring" where
  "decimalInt k = (if k < 0 then js ''-'' @ digits (nat (- k)) else digits (nat k))"

fun decimalNumber :: "jsnum \<Rightarrow> jsstring" where
  "decimalNumber NaN = js ''NaN''"
| "decimalNumber PosInfinity = js ''Infinity''"
| "decimalNumber NegInfinity = js ''-Infinity''"
| "decimalNumber NegZero = js ''0''"
| "decimalNumber (Finite q) =
     (case quotient_of q of
        (a, b) \<Rightarrow> (if b = 1 then decimalInt a else decimalInt a @ js ''/'' @ decimalInt b))"

definition decimalPlatform :: platform where
  "decimalPlatform =
     \<lparr>numberToString = decimalNumber, storageAccepts = (\<lambda>raw. True),
      resolveLocalTime = (\<lambda>d. d)\<rparr>"

text \<open>
  A browser with \<^verbatim>\<open>crypto.randomUUID\<close>; the tag stands for the randomness of one call of
  normalizeState, so that two calls with different tags draw different ids.
\<close>

definition uuidAmbient :: "string \<Rightarrow> ambient" where
  "uuidAmbient tag = \<lparr>randomUUID = Some (\<lambda>i. js tag @ digits i), dateNow = (\<lambda>i. 0)\<rparr>"

definition emptyWorld :: world where
  "emptyWorld = \<lparr>state = emptyState, localStorage = Map.empty, alerts = [], renders = 0,
                 fileInputValue = [], saveCalls = [], uncaught = []\<rparr>"

subsection \<open>Notions used in the statements, and examples\<close>

text \<open>\<^verbatim>\<open>state.habits\<close> of a state.\<close>

definition habitsOf :: "jsval \<Rightarrow> jsval list" where
  "habitsOf s = (case get s (js ''habits'') of JArr hs \<Rightarrow> hs | _ \<Rightarrow> [])"

text \<open>
  An id as \<^verbatim>\<open>JSON.parse('{"toString":0}')\<close> gives it: an object whose own \<^verbatim>\<open>toString\<close>
  property is not a function.
\<close>

definition poisonedId :: jsval where
  "poisonedId = JObj [(js ''toString'', JNum (Finite 0))]"

text \<open>The object literals of the source: a habit \<^verbatim>\<open>{id, name, log}\<close> and a state \<^verbatim>\<open>{habits}\<close>.\<close>

definition habitObject :: "jsstring \<Rightarrow> jsstring \<Rightarrow> (jsstring \<times> jsval) list \<Rightarrow> jsval" where
  "habitObject i n l = JObj [(js ''id'', JStr i), (js ''name'', JStr n), (js ''log'', JObj l)]"

definition stateObject :: "jsval list \<Rightarrow> jsval" where
  "stateObject hs = JObj [(js ''habits'', JArr hs)]"

text \<open>\<^verbatim>\<open>crypto.randomUUID()\<close>, where present, returns a non-empty string.\<close>

definition uuidsNonEmpty :: "ambient \<Rightarrow> bool" where
  "uuidsNonEmpty A \<longleftrightarrow> (\<forall>uuid i. randomUUID A = Some uuid \<longrightarrow> uuid i \<noteq> [])"

text \<open>An entry whose id is truthy and whose string form exists and is not empty.\<close>

definition hasUsableId :: "platform \<Rightarrow> jsval \<Rightarrow> bool" where
  "hasUsableId P h \<longleftrightarrow>
     truthy h \<and> truthy (get h (js ''id''))
     \<and> (case toString P (get h (js ''id'')) of Inl e \<Rightarrow> False | Inr t \<Rightarrow> t \<noteq> [])"

text \<open>
  What the day-cell handler may change in a habit: nothing unless its id is the target,
  and then only the log entry of the day key.
\<close>

definition toggleFrame :: "jsval \<Rightarrow> jsstring \<Rightarrow> jsval \<Rightarrow> jsval \<Rightarrow> bool" where
  "toggleFrame target dayKey h h' \<longleftrightarrow>
     (get h (js ''id'') \<noteq> target \<longrightarrow> h' = h)
     \<and> get h' (js ''id'') = get h (js ''id'')
     \<and> get h' (js ''name'') = get h (js ''name'')
     \<and> (\<forall>k. k \<noteq> dayKey \<longrightarrow> get (get h' (js ''log'')) k = get (get h (js ''log'')) k)"

text \<open>A world with two habits and nothing logged.\<close>

definition twoHabitsWorld :: world where
  "twoHabitsWorld = emptyWorld\<lparr>state :=
     stateObject [habitObject (js ''x'') (js ''Water'') [], habitObject (js ''y'') (js ''Run'') []]\<rparr>"

text \<open>
  The calendar, apart from the program: the day before a day, and the day \<open>i\<close> days
  before a day (the time of day is kept).
\<close>

definition dayBefore :: "date \<Rightarrow> date" where
  "dayBefore d =
     (if 1 < getDate d then d\<lparr>getDate := getDate d - 1\<rparr>
      else if 0 < getMonth d then
        d\<lparr>getMonth := getMonth d - 1, getDate := daysInMonth (getFullYear d) (getMonth d - 1)\<rparr>
      else d\<lparr>getFullYear := getFullYear d - 1, getMonth := 11, getDate := 31\<rparr>)"

definition daysBefore :: "date \<Rightarrow> nat \<Rightarrow> date" where
  "daysBefore today i = (dayBefore ^^ i) today"



text \<open>The code unit of a decimal digit.\<close>

definition digitChar :: "nat \<Rightarrow> 16 word" where
  "digitChar k = 0x30 + of_nat k"



text \<open>The date key of the calendar day \<open>d\<close> maps to a truthy value in the habit's log.\<close>

definition markedDay :: "platform \<Rightarrow> jsval \<Rightarrow> date \<Rightarrow> bool" where
  "markedDay P habit d = truthyAt (get habit (js ''log'')) (toKey P d)"

text \<open>
  The claim's count, in the spec's words: \<open>n\<close> is the number of consecutive local
  calendar days, starting at today and walking backwards, whose date keys map to truthy
  values in the log, the day \<open>n\<close> days back being the first that does not.
\<close>

definition consecutiveDays :: "platform \<Rightarrow> date \<Rightarrow> jsval \<Rightarrow> nat \<Rightarrow> bool" where
  "consecutiveDays P today habit n \<longleftrightarrow>
     (\<forall>i<n. markedDay P habit (daysBefore today i)) \<and> \<not> markedDay P habit (daysBefore today n)"


text \<open>
  A time zone whose clocks go from 23:00 on 28 March 2026 straight to 0:00 on 29 March,
  as in America/Nuuk: a local time \<open>t\<close> past 23:00 on the 28th is read back as the time
  \<open>t - 23:00\<close> on the 29th. And a habit that is marked on 29 March 2026 only.
\<close>

definition skippingPlatform :: platform where
  "skippingPlatform =
     decimalPlatform\<lparr>resolveLocalTime :=
       (\<lambda>d. if getFullYear d = 2026 \<and> getMonth d = 2 \<and> getDate d = 28
                 \<and> 82800000 \<le> timeWithinDay d \<and> timeWithinDay d < 86400000
              then d\<lparr>getDate := 29, timeWithinDay := timeWithinDay d - 82800000\<rparr>
              else d)\<rparr>"

definition oneDayHabit :: jsval where
  "oneDayHabit = JObj [(js ''log'', JObj [(js ''2026-03-29'', JBool True)])]"

text \<open>23:30 on 29 March 2026.\<close>

definition lateToday :: date where
  "lateToday = \<lparr>getFullYear = 2026, getMonth = 2, getDate = 29, timeWithinDay = 84600000\<rparr>"

section \<open>Lemmas\<close>

subsection \<open>Strings and object keys\<close>

declare digits.simps [simp del]
declare streakLoop.simps [simp del]
declare rollDate.simps [simp del]

lemma trim_idem: "trim (trim s) = trim s"
proof -
  define t where "t = dropWhile isWhiteSpace s"
  define u where "u = rev (dropWhile isWhiteSpace (rev t))"
  have tu: "t = u @ rev (takeWhile isWhiteSpace (rev t))"
    unfolding u_def by (metis rev_append rev_rev_ident takeWhile_dropWhile_id)
  have "dropWhile isWhiteSpace u = u"
  proof (cases "u = []")
    case True then show ?thesis by simp
  next
    case False
    then have "hd u = hd t" using tu by (metis hd_append2)
    moreover have "t \<noteq> []" using False tu by auto
    then have "\<not> isWhiteSpace (hd t)" unfolding t_def by (rule hd_dropWhile)
    ultimately show ?thesis by (simp add: dropWhile_eq_self_iff)
  qed
  moreover have "dropWhile isWhiteSpace (rev u) = rev u"
    unfolding u_def by simp
  ultimately show ?thesis
    unfolding trim_def t_def[symmetric] u_def[symmetric] by simp
qed

lemma key_neqs [simp]:
  "js ''id'' \<noteq> js ''name''" "js ''id'' \<noteq> js ''log''" "js ''name'' \<noteq> js ''log''"
  "js ''name'' \<noteq> js ''id''" "js ''log'' \<noteq> js ''id''" "js ''log'' \<noteq> js ''name''"
  by (simp_all add: js_def)

lemma untitled_nonempty [simp]: "js ''Untitled habit'' \<noteq> []"
  by (simp add: js_def)

lemma habitName_nonempty: "habitName h \<noteq> []"
  by (simp add: habitName_def split: jsval.splits)

lemma habitName_trimmed: "trim (habitName h) = habitName h"
  apply (simp add: habitName_def trim_idem split: jsval.splits)
  apply (simp add: trim_def js_def isWhiteSpace_def)
  done

subsection \<open>Normalised states are fixed points of normalizeState\<close>

lemma normalizedHabit_iff:
  "normalizedHabit h \<longleftrightarrow>
     (\<exists>i n l. h = JObj [(js ''id'', JStr i), (js ''name'', JStr n), (js ''log'', JObj l)]
        \<and> i \<noteq> [] \<and> n \<noteq> [] \<and> trim n = n)"
  by (auto simp: normalizedHabit_def split: jsval.splits list.splits prod.splits)

lemma normalizeHabit_fixed:
  assumes "normalizedHabit h"
  shows "normalizeHabit P A index h = Inr h"
proof -
  from assms obtain i n l where
    h: "h = JObj [(js ''id'', JStr i), (js ''name'', JStr n), (js ''log'', JObj l)]"
    and i: "i \<noteq> []" and n: "n \<noteq> []" "trim n = n"
    by (auto simp: normalizedHabit_iff)
  have "habitId P A index h = Inr i" by (simp add: h habitId_def i)
  moreover have "habitName h = n" by (simp add: h habitName_def n)
  moreover have "habitLog P h = l" by (simp add: h habitLog_def)
  ultimately show ?thesis by (simp add: normalizeHabit_def h)
qed

lemma mapHabits_fixed:
  "list_all normalizedHabit hs \<Longrightarrow> mapHabits P A index hs = Inr hs"
  by (induction hs arbitrary: index) (simp_all add: normalizeHabit_fixed)

lemma habitsInput_state [simp]: "habitsInput (JObj [(js ''habits'', JArr hs)]) = hs"
  by (simp add: habitsInput_def)

lemma normalizedState_iff:
  "normalizedState s \<longleftrightarrow> (\<exists>hs. s = JObj [(js ''habits'', JArr hs)] \<and> list_all normalizedHabit hs)"
  by (auto simp: normalizedState_def split: jsval.splits list.splits prod.splits)

lemma normalizeState_fixed:
  "normalizedState s \<Longrightarrow> normalizeState P A s = Inr s"
  by (auto simp: normalizedState_iff normalizeState_def mapHabits_fixed)

subsection \<open>What normalizeState returns\<close>

lemma mapHabits_nth:
  "mapHabits P A index hs = Inr hs' \<Longrightarrow>
     length hs' = length hs \<and> (\<forall>i<length hs. normalizeHabit P A (index + i) (hs ! i) = Inr (hs' ! i))"
proof (induction hs arbitrary: index hs')
  case Nil
  then show ?case by simp
next
  case (Cons h hs)
  from Cons.prems obtain h' hs'' where
    h': "normalizeHabit P A index h = Inr h'" and
    r: "mapHabits P A (Suc index) hs = Inr hs''" and
    eq: "hs' = h' # hs''"
    by (auto split: sum.splits)
  from Cons.IH[OF r] have len: "length hs'' = length hs"
    and nth: "\<And>i. i < length hs \<Longrightarrow> normalizeHabit P A (Suc index + i) (hs ! i) = Inr (hs'' ! i)"
    by auto
  show ?case
  proof (intro conjI allI impI)
    show "length hs' = length (h # hs)" using len eq by simp
  next
    fix i assume "i < length (h # hs)"
    then show "normalizeHabit P A (index + i) ((h # hs) ! i) = Inr (hs' ! i)"
      using h' nth eq by (cases i) auto
  qed
qed

lemma normalizeState_entries:
  assumes "normalizeState P A x = Inr s"
  shows "s = JObj [(js ''habits'', JArr (habitsOf s))]
         \<and> length (habitsOf s) = length (habitsInput x)
         \<and> (\<forall>i<length (habitsInput x). normalizeHabit P A i (habitsInput x ! i) = Inr (habitsOf s ! i))"
proof -
  from assms obtain hs where m: "mapHabits P A 0 (habitsInput x) = Inr hs"
    and s: "s = JObj [(js ''habits'', JArr hs)]"
    by (auto simp: normalizeState_def split: sum.splits)
  have "habitsOf s = hs" by (simp add: s habitsOf_def)
  with mapHabits_nth[OF m] s show ?thesis by simp
qed

lemma normalizeHabit_parts:
  "normalizeHabit P A i h = Inr h' \<Longrightarrow>
     (\<exists>t. habitId P A i h = Inr t \<and> get h' (js ''id'') = JStr t)
     \<and> get h' (js ''name'') = JStr (habitName h)
     \<and> get h' (js ''log'') = JObj (habitLog P h)"
  by (auto simp: normalizeHabit_def split: sum.splits)

lemma freshId_nonempty: "uuidsNonEmpty A \<Longrightarrow> freshId P A index \<noteq> []"
  by (cases "randomUUID A") (simp_all add: freshId_def js_def uuidsNonEmpty_def)

lemma habitId_nonempty:
  assumes "uuidsNonEmpty A" and "habitId P A index h = Inr t"
  shows "t \<noteq> []"
proof (cases "truthy h \<and> truthy (get h (js ''id''))")
  case True
  with assms(2) obtain s where "toString P (get h (js ''id'')) = Inr s"
    and t: "t = (if s \<noteq> [] then s else freshId P A index)"
    by (auto simp: habitId_def split: sum.splits)
  then show ?thesis using freshId_nonempty[OF assms(1)] by simp
next
  case False
  with assms(2) have "t = freshId P A index" by (auto simp: habitId_def)
  then show ?thesis using freshId_nonempty[OF assms(1)] by simp
qed

lemma normalizeHabit_normalized:
  assumes "uuidsNonEmpty A" and "normalizeHabit P A index h = Inr h'"
  shows "normalizedHabit h'"
proof -
  from assms(2) obtain t where t: "habitId P A index h = Inr t"
    and h': "h' = JObj [(js ''id'', JStr t), (js ''name'', JStr (habitName h)),
                        (js ''log'', JObj (habitLog P h))]"
    by (auto simp: normalizeHabit_def split: sum.splits)
  have "t \<noteq> []" using habitId_nonempty[OF assms(1) t] .
  then show ?thesis
    unfolding normalizedHabit_iff h'
    by (simp add: habitName_nonempty habitName_trimmed)
qed

lemma mapHabits_normalized:
  assumes "uuidsNonEmpty A"
  shows "mapHabits P A index hs = Inr hs' \<Longrightarrow> list_all normalizedHabit hs'"
proof (induction hs arbitrary: index hs')
  case Nil then show ?case by simp
next
  case (Cons h hs)
  from Cons.prems obtain h' hs'' where
    h': "normalizeHabit P A index h = Inr h'" and
    r: "mapHabits P A (Suc index) hs = Inr hs''" and
    eq: "hs' = h' # hs''"
    by (auto split: sum.splits)
  show ?case
    using normalizeHabit_normalized[OF assms h'] Cons.IH[OF r] eq by simp
qed

lemma normalizeState_normalized:
  assumes "uuidsNonEmpty A" and "normalizeState P A x = Inr s"
  shows "normalizedState s"
proof -
  from assms(2) obtain hs where m: "mapHabits P A 0 (habitsInput x) = Inr hs"
    and s: "s = JObj [(js ''habits'', JArr hs)]"
    by (auto simp: normalizeState_def split: sum.splits)
  show ?thesis unfolding normalizedState_iff using mapHabits_normalized[OF assms(1) m] s by simp
qed

lemma normalizedHabit_wellFormed: "normalizedHabit h \<Longrightarrow> wellFormedHabit h"
  by (auto simp: normalizedHabit_iff wellFormedHabit_def)

lemma normalizedState_wellFormed: "normalizedState s \<Longrightarrow> wellFormedState s"
  by (auto simp: normalizedState_iff wellFormedState_def list_all_iff normalizedHabit_wellFormed)

subsection \<open>Entries whose id is used as it is\<close>

lemma habitId_usable:
  assumes "hasUsableId P h"
  shows "\<exists>t. t \<noteq> [] \<and> toString P (get h (js ''id'')) = Inr t \<and> (\<forall>A i. habitId P A i h = Inr t)"
proof -
  from assms obtain t where "toString P (get h (js ''id'')) = Inr t" "t \<noteq> []"
    and "truthy h" "truthy (get h (js ''id''))"
    by (auto simp: hasUsableId_def split: sum.splits)
  then show ?thesis by (auto simp: habitId_def)
qed

lemma normalizeHabit_usable:
  assumes "hasUsableId P h"
  shows "\<exists>h'. normalizedHabit h' \<and> (\<forall>A i. normalizeHabit P A i h = Inr h')"
proof -
  from habitId_usable[OF assms] obtain t where t: "t \<noteq> []" "\<And>A i. habitId P A i h = Inr t"
    by blast
  let ?h' = "JObj [(js ''id'', JStr t), (js ''name'', JStr (habitName h)), (js ''log'', JObj (habitLog P h))]"
  have "normalizedHabit ?h'"
    unfolding normalizedHabit_iff using t(1) by (simp add: habitName_nonempty habitName_trimmed)
  moreover have "\<forall>A i. normalizeHabit P A i h = Inr ?h'"
    by (simp add: normalizeHabit_def t(2))
  ultimately show ?thesis by blast
qed

lemma mapHabits_usable:
  "list_all (hasUsableId P) hs \<Longrightarrow>
     \<exists>hs'. list_all normalizedHabit hs' \<and> (\<forall>A i. mapHabits P A i hs = Inr hs')"
proof (induction hs)
  case Nil
  then show ?case by simp
next
  case (Cons h hs)
  then obtain hs' where hs': "list_all normalizedHabit hs'" "\<And>A i. mapHabits P A i hs = Inr hs'"
    by auto
  from Cons.prems normalizeHabit_usable[of P h] obtain h' where
    h': "normalizedHabit h'" "\<And>A i. normalizeHabit P A i h = Inr h'"
    by auto
  have "list_all normalizedHabit (h' # hs')" using h'(1) hs'(1) by simp
  moreover have "\<forall>A i. mapHabits P A i (h # hs) = Inr (h' # hs')"
    by (simp add: h'(2) hs'(2))
  ultimately show ?case by blast
qed

lemma digits0 [simp]: "digits 0 = js ''0''"
  by (simp add: digits.simps js_def)

lemma habitId_cases:
  "habitId P A i h = Inr t \<Longrightarrow>
     (truthy h \<and> truthy (get h (js ''id'')) \<and> toString P (get h (js ''id'')) = Inr u \<and> u \<noteq> []
        \<longrightarrow> t = u)
     \<and> (\<not> truthy h \<or> \<not> truthy (get h (js ''id'')) \<or> toString P (get h (js ''id'')) = Inr []
        \<longrightarrow> t = freshId P A i)"
  by (auto simp: habitId_def split: if_splits sum.splits)

subsection \<open>Serialisation\<close>

lemma serialised_json:
  "(jsonValue v \<longrightarrow> serialised v = Some v)"
  "(jsonProps ps \<longrightarrow> serialisedProps ps = ps)"
  "(jsonElems xs \<longrightarrow> serialisedElems xs = xs)"
  by (induction v and ps and xs rule: serialised_serialisedProps_serialisedElems.induct)
     (auto split: jsnum.splits)

lemma JSON_roundtrip: "jsonValue v \<Longrightarrow> JSON_parse (JSON_stringify v) = Inr v"
  by (simp add: JSON_stringify_def serialised_json)

lemma uuidAmbient_nonEmpty: "uuidsNonEmpty (uuidAmbient (c # cs))"
  by (simp add: uuidsNonEmpty_def uuidAmbient_def js_def)

lemma decimalPlatform_accepts [simp]: "storageAccepts decimalPlatform raw"
  by (simp add: decimalPlatform_def)

subsection \<open>Toggling a day\<close>

lemma assignBool_other:
  "k \<noteq> dayKey \<Longrightarrow> map_of (assignBool l dayKey b) k = map_of l k"
  by (simp add: assignBool_def update_conv')

lemma toggled_normalized:
  assumes "normalizedHabit h"
  shows "normalizedHabit (toggled P h dayKey)
       \<and> toggleFrame (get h (js ''id'')) dayKey h (toggled P h dayKey)"
proof -
  from assms obtain i n l where
    h: "h = JObj [(js ''id'', JStr i), (js ''name'', JStr n), (js ''log'', JObj l)]"
    and i: "i \<noteq> []" and n: "n \<noteq> []" "trim n = n"
    by (auto simp: normalizedHabit_iff)
  define l' where "l' = assignBool l dayKey (\<not> truthyAt (JObj l) dayKey)"
  have t: "toggled P h dayKey = JObj [(js ''id'', JStr i), (js ''name'', JStr n), (js ''log'', JObj l')]"
    by (simp add: toggled_def h l'_def Let_def)
  have "normalizedHabit (toggled P h dayKey)"
    unfolding t normalizedHabit_iff using i n by simp
  moreover have "toggleFrame (get h (js ''id'')) dayKey h (toggled P h dayKey)"
    unfolding t toggleFrame_def by (simp add: h l'_def assignBool_other)
  ultimately show ?thesis by simp
qed

lemma toggleFrame_refl: "toggleFrame target dayKey h h"
  by (simp add: toggleFrame_def)

lemma mapToggle_normalized:
  "list_all normalizedHabit hs \<Longrightarrow>
     \<exists>hs'. mapToggle P target dayKey hs = Inr hs' \<and> list_all normalizedHabit hs'
           \<and> list_all2 (toggleFrame target dayKey) hs hs'"
proof (induction hs)
  case Nil
  then show ?case by simp
next
  case (Cons h hs)
  then obtain hs' where hs': "mapToggle P target dayKey hs = Inr hs'"
    "list_all normalizedHabit hs'" "list_all2 (toggleFrame target dayKey) hs hs'"
    by auto
  from Cons.prems have nh: "normalizedHabit h" by simp
  then have m: "member h (js ''id'') = Inr (get h (js ''id''))"
    by (auto simp: member_def normalizedHabit_iff)
  let ?h' = "if get h (js ''id'') \<noteq> target then h else toggled P h dayKey"
  have "mapToggle P target dayKey (h # hs) = Inr (?h' # hs')"
    by (simp add: m hs'(1))
  moreover have "normalizedHabit ?h'" "toggleFrame target dayKey h ?h'"
    using nh toggled_normalized[OF nh, of P dayKey] by (auto simp: toggleFrame_refl)
  ultimately show ?case using hs'(2,3) by auto
qed

lemma saveState_state:
  "normalizeState P A x = Inr s \<Longrightarrow> state (snd (saveState P A w x)) = s"
  by (simp add: saveState_def Let_def)

lemma dayCellClick_state:
  assumes "state w = stateObject hs" and "mapToggle P (datasetValue a) dayKey hs = Inr hs'"
    and "list_all normalizedHabit hs'"
  shows "state (dayCellClick P A w a dayKey) = stateObject hs'"
proof -
  have m: "member (state w) (js ''habits'') = Inr (JArr hs)"
    by (simp add: assms(1) stateObject_def member_def)
  have "normalizedState (stateObject hs')"
    unfolding normalizedState_iff stateObject_def using assms(3) by simp
  then have n: "normalizeState P A (stateObject hs') = Inr (stateObject hs')"
    by (rule normalizeState_fixed)
  have s: "state (snd (saveState P A w (stateObject hs'))) = stateObject hs'"
    using saveState_state[OF n] .
  obtain r w1 where sv: "saveState P A w (stateObject hs') = (r, w1)" by (cases "saveState P A w (stateObject hs')")
  with s have s1: "state w1 = stateObject hs'" by simp
  show ?thesis
    using s1
    by (cases r) (simp_all add: dayCellClick_def m assms(2) sv[unfolded stateObject_def] render_def escaped_def)
qed

subsection \<open>setDate walks the calendar\<close>


lemma rollDate_day:
  "1 \<le> dt \<Longrightarrow> dt \<le> int (daysInMonth (getFullYear d) (getMonth d)) \<Longrightarrow>
     rollDate d dt = d\<lparr>getDate := nat dt\<rparr>"
  by (subst rollDate.simps) simp











subsection \<open>The loop of computeStreak\<close>


lemma streakLoop_run:
  assumes "\<forall>j. i \<le> j \<and> j < n \<longrightarrow> marked P today habit j"
    and "n < 365 \<longrightarrow> \<not> marked P today habit n"
    and "i \<le> n" and "n \<le> 365"
  shows "streakLoop P today habit i streak = streak + (n - i)"
  using assms
proof (induction "n - i" arbitrary: i streak)
  case 0
  then have "i = n" by simp
  with 0 show ?case
    by (subst streakLoop.simps) (auto simp: marked_def)
next
  case (Suc k)
  then have lt: "i < n" and m: "marked P today habit i" by auto
  have "streakLoop P today habit (Suc i) (Suc streak) = Suc streak + (n - Suc i)"
    using Suc by (intro Suc.hyps(1)) auto
  with lt m Suc.prems(4) show ?case
    by (subst streakLoop.simps) (simp add: marked_def)
qed

lemma marked_truthy:
  assumes "marked P today habit i"
  shows "truthy habit \<and> truthy (get habit (js ''log''))"
proof -
  from assms obtain ps where l: "get habit (js ''log'') = JObj ps"
    by (cases "get habit (js ''log'')") (auto simp: marked_def)
  then have "truthy habit" by (cases habit) auto
  with l show ?thesis by simp
qed

lemma computeStreak_run:
  assumes "\<forall>j<n. marked P today habit j" and "n < 365 \<longrightarrow> \<not> marked P today habit n" and "n \<le> 365"
  shows "computeStreak P today habit = n"
proof (cases "\<not> truthy habit \<or> \<not> truthy (get habit (js ''log''))")
  case True
  then have "\<not> marked P today habit 0" using marked_truthy by blast
  with assms(1) have "n = 0" by (cases n) auto
  with True show ?thesis by (auto simp: computeStreak_def)
next
  case False
  then have "computeStreak P today habit = streakLoop P today habit 0 0"
    by (simp add: computeStreak_def)
  also have "\<dots> = 0 + (n - 0)"
    using assms by (intro streakLoop_run) auto
  finally show ?thesis by simp
qed




subsection \<open>Decimal numerals are read back uniquely\<close>

lemma digitChar_inj: "x < 10 \<Longrightarrow> y < 10 \<Longrightarrow> digitChar x = digitChar y \<longleftrightarrow> x = y"
  by (simp add: digitChar_def word_of_nat_eq_iff take_bit_nat_eq_self)


lemma digits_small: "n < 10 \<Longrightarrow> digits n = [digitChar n]"
  by (subst digits.simps) (simp add: digitChar_def)

lemma digits_big: "\<not> n < 10 \<Longrightarrow> digits n = digits (n div 10) @ [digitChar (n mod 10)]"
  by (subst digits.simps) (simp add: digitChar_def)







lemma twoDigits: "n < 100 \<Longrightarrow> padStart2 (digits n) = [digitChar (n div 10), digitChar (n mod 10)]"
proof (cases "n < 10")
  case True
  then show ?thesis unfolding digits_small[OF True] by (simp add: padStart2_def digitChar_def)
next
  case False
  assume "n < 100"
  then have s: "n div 10 < 10" by simp
  show ?thesis unfolding digits_big[OF False] digits_small[OF s] by (simp add: padStart2_def)
qed

lemma twoDigits_inj:
  assumes "a < 100" "b < 100" "padStart2 (digits a) = padStart2 (digits b)"
  shows "a = b"
proof -
  from assms have "digitChar (a div 10) = digitChar (b div 10)" "digitChar (a mod 10) = digitChar (b mod 10)"
    by (simp_all add: twoDigits)
  with assms(1,2) have "a div 10 = b div 10" "a mod 10 = b mod 10"
    by (simp_all add: digitChar_inj)
  then show ?thesis by (metis div_mult_mod_eq)
qed

subsection \<open>Date keys tell days apart\<close>















subsection \<open>A local time that a clock change skips\<close>

text \<open>
  At 23:30 on 29 March 2026 in the zone of \<open>skippingPlatform\<close>, rounds 0 and 1 of the loop
  both read the key of 29 March: \<^verbatim>\<open>setDate(28)\<close> asks for 23:30 on the 28th, which the
  clocks skip, and the \<^verbatim>\<open>Date\<close> reads back 0:30 on the 29th. A habit marked on that one
  day is given the streak 2.
\<close>

lemma keys_lateToday:
  "toKey skippingPlatform (setDate skippingPlatform lateToday (int (getDate lateToday) - int 0))
     = js ''2026-03-29''"
  "toKey skippingPlatform (setDate skippingPlatform lateToday (int (getDate lateToday) - int 1))
     = js ''2026-03-29''"
  "toKey skippingPlatform (setDate skippingPlatform lateToday (int (getDate lateToday) - int 2))
     = js ''2026-03-27''"
  "toKey skippingPlatform (daysBefore lateToday 1) = js ''2026-03-28''"
  by (simp_all add: toKey_def skippingPlatform_def decimalPlatform_def lateToday_def padStart2_def
      js_def decimalInt_def digits.simps daysBefore_def dayBefore_def setDate_def rollDate_day
      daysInMonth_def)

lemma computeStreak_skipped_time:
  "consecutiveDays skippingPlatform lateToday oneDayHabit 1
   \<and> computeStreak skippingPlatform lateToday oneDayHabit = 2"
proof -
  have m: "marked skippingPlatform lateToday oneDayHabit 0"
    "marked skippingPlatform lateToday oneDayHabit 1"
    "\<not> marked skippingPlatform lateToday oneDayHabit 2"
    unfolding marked_def keys_lateToday
    by (simp_all add: oneDayHabit_def js_def objectPrototypeNames_def)
  have "\<forall>j<2. marked skippingPlatform lateToday oneDayHabit j"
    using m(1,2) by (auto simp: less_2_cases_iff)
  from computeStreak_run[OF this] m(3)
  have c: "computeStreak skippingPlatform lateToday oneDayHabit = 2" by simp
  have "markedDay skippingPlatform oneDayHabit (daysBefore lateToday 0)"
    using m(1) by (simp add: marked_def markedDay_def daysBefore_def setDate_def rollDate_day
        skippingPlatform_def lateToday_def daysInMonth_def)
  moreover have "\<not> markedDay skippingPlatform oneDayHabit (daysBefore lateToday 1)"
    unfolding markedDay_def keys_lateToday
    by (simp add: oneDayHabit_def js_def objectPrototypeNames_def)
  ultimately show ?thesis using c by (simp add: consecutiveDays_def)
qed

subsection \<open>When normalizeState returns\<close>

lemma habitId_returns:
  assumes "truthy h \<and> truthy (get h (js ''id'')) \<longrightarrow> (\<exists>t. toString P (get h (js ''id'')) = Inr t)"
  shows "\<exists>t. habitId P A i h = Inr t"
  using assms by (auto simp: habitId_def)

lemma mapHabits_returns:
  assumes "\<forall>h\<in>set hs. truthy h \<and> truthy (get h (js ''id'')) \<longrightarrow> (\<exists>t. toString P (get h (js ''id'')) = Inr t)"
  shows "\<exists>hs'. mapHabits P A i hs = Inr hs'"
  using assms
proof (induction hs arbitrary: i)
  case Nil
  then show ?case by simp
next
  case (Cons h hs)
  from Cons.prems habitId_returns[of h P A i] obtain t where "habitId P A i h = Inr t" by auto
  then obtain h' where h': "normalizeHabit P A i h = Inr h'" by (simp add: normalizeHabit_def)
  from Cons.IH[of "Suc i"] Cons.prems obtain hs' where "mapHabits P A (Suc i) hs = Inr hs'" by auto
  with h' show ?case by simp
qed

lemma normalizeState_returns:
  assumes "\<forall>h\<in>set (habitsInput x). truthy h \<and> truthy (get h (js ''id''))
             \<longrightarrow> (\<exists>t. toString P (get h (js ''id'')) = Inr t)"
    and "uuidsNonEmpty A"
  shows "\<exists>s. normalizeState P A x = Inr s \<and> wellFormedState s"
proof -
  from mapHabits_returns[OF assms(1)] obtain hs' where "mapHabits P A 0 (habitsInput x) = Inr hs'"
    by blast
  then have n: "normalizeState P A x = Inr (JObj [(js ''habits'', JArr hs')])"
    by (simp add: normalizeState_def)
  from normalizeState_normalized[OF assms(2) n] normalizedState_wellFormed n show ?thesis by blast
qed

lemma toString_plain:
  "\<not> typeofObject v \<or> v = JNull \<Longrightarrow> \<exists>t. toString P v = Inr t"
  by (cases v) auto

section \<open>The claims\<close>

subsection \<open>Totality of normalizeState\<close>

text \<open>
  C1. The claim: on every input normalizeState returns, without raising, a well-formed
  state. On the state \<^verbatim>\<open>{habits: [{id: {toString: 0}}]}\<close>, which \<^verbatim>\<open>JSON.parse\<close> can
  deliver, \<^verbatim>\<open>String(h.id)\<close> raises TypeError and so does normalizeState. (Lemma
  \<open>normalizeState_returns\<close> shows this to be the only way to fail: where the string
  conversion of every truthy id succeeds, a well-formed state is returned.)
\<close>

theorem normalizeState_raises:
  "normalizeState P A (JObj [(js ''habits'', JArr [JObj [(js ''id'', poisonedId)]])]) = Inl TypeError"
  by (simp add: normalizeState_def normalizeHabit_def habitId_def poisonedId_def)

text \<open>
  C10. The claim: whenever \<^verbatim>\<open>habits\<close> is an array, normalizeState returns an array of the
  same length, entry by entry. With three entries, the last carrying an id whose string
  conversion raises, no array is returned. (Where normalizeState does return, lemma
  \<open>normalizeState_entries\<close> gives the length and the entry-by-entry correspondence.)
\<close>

theorem normalizeState_no_array:
  "isArray (get (stateObject [JNull, JNum (Finite 5), JObj [(js ''id'', poisonedId)]]) (js ''habits''))
   \<and> normalizeState P A (stateObject [JNull, JNum (Finite 5), JObj [(js ''id'', poisonedId)]]) = Inl TypeError"
  by (simp add: stateObject_def normalizeState_def normalizeHabit_def habitId_def poisonedId_def)

subsection \<open>The id of a normalised habit\<close>

text \<open>
  C7, as the code has it. When normalizeState returns, the output habit at index \<open>i\<close>
  has the string form of the entry's id if the entry and its id are truthy and that
  string is not empty; it has a freshly generated id if the entry or its id is falsy, or
  if the string form of the id is empty.
\<close>

theorem normalizeState_id:
  assumes "normalizeState P A x = Inr s" and "i < length (habitsInput x)"
  shows "(truthy (habitsInput x ! i) \<and> truthy (get (habitsInput x ! i) (js ''id''))
            \<and> toString P (get (habitsInput x ! i) (js ''id'')) = Inr u \<and> u \<noteq> []
          \<longrightarrow> get (habitsOf s ! i) (js ''id'') = JStr u)
       \<and> (\<not> truthy (habitsInput x ! i) \<or> \<not> truthy (get (habitsInput x ! i) (js ''id''))
            \<or> toString P (get (habitsInput x ! i) (js ''id'')) = Inr []
          \<longrightarrow> get (habitsOf s ! i) (js ''id'') = JStr (freshId P A i))"
proof -
  from normalizeState_entries[OF assms(1)] assms(2)
  have "normalizeHabit P A i (habitsInput x ! i) = Inr (habitsOf s ! i)" by simp
  from normalizeHabit_parts[OF this] obtain t where
    t: "habitId P A i (habitsInput x ! i) = Inr t" and g: "get (habitsOf s ! i) (js ''id'') = JStr t"
    by blast
  from habitId_cases[OF t, of u] g show ?thesis by simp
qed

text \<open>The theorem at \<^verbatim>\<open>{habits: [{id: 42}, null]}\<close>.\<close>

theorem normalizeState_id_witness:
  "normalizeState decimalPlatform (uuidAmbient ''a'')
      (stateObject [JObj [(js ''id'', JNum (Finite 42))], JNull]) =
     Inr (stateObject [habitObject (js ''42'') (js ''Untitled habit'') [],
                       habitObject (js ''a1'') (js ''Untitled habit'') []])
   \<and> get (habitsOf (stateObject [habitObject (js ''42'') (js ''Untitled habit'') [],
                       habitObject (js ''a1'') (js ''Untitled habit'') []]) ! 0) (js ''id'') = JStr (js ''42'')
   \<and> get (habitsOf (stateObject [habitObject (js ''42'') (js ''Untitled habit'') [],
                       habitObject (js ''a1'') (js ''Untitled habit'') []]) ! 1) (js ''id'')
      = JStr (freshId decimalPlatform (uuidAmbient ''a'') 1)"
proof -
  let ?x = "stateObject [JObj [(js ''id'', JNum (Finite 42))], JNull]"
  let ?s = "stateObject [habitObject (js ''42'') (js ''Untitled habit'') [],
                       habitObject (js ''a1'') (js ''Untitled habit'') []]"
  have n: "normalizeState decimalPlatform (uuidAmbient ''a'') ?x = Inr ?s"
    by (simp add: stateObject_def habitObject_def normalizeState_def normalizeHabit_def habitId_def
      habitName_def habitLog_def freshId_def uuidAmbient_def js_def decimalPlatform_def decimalInt_def
      digits.simps habitsInput_def)
  have l0: "0 < length (habitsInput ?x)" and l1: "1 < length (habitsInput ?x)"
    by (simp_all add: stateObject_def)
  have u: "toString decimalPlatform (get (habitsInput ?x ! 0) (js ''id'')) = Inr (js ''42'')"
    by (simp add: stateObject_def decimalPlatform_def decimalInt_def digits.simps js_def habitsInput_def)
  have "get (habitsOf ?s ! 0) (js ''id'') = JStr (js ''42'')"
    using normalizeState_id[OF n l0, of "js ''42''"] u
    by (simp add: stateObject_def js_def habitsInput_def)
  moreover have "get (habitsOf ?s ! 1) (js ''id'') = JStr (freshId decimalPlatform (uuidAmbient ''a'') 1)"
    using normalizeState_id[OF n l1, of "[]"]
    by (simp add: stateObject_def)
  ultimately show ?thesis using n by simp
qed

text \<open>
  C7 as claimed fails at \<^verbatim>\<open>{habits: [{id: []}]}\<close>: the id is truthy, its string form is
  the empty string, and the output id is a freshly generated one.
\<close>

theorem empty_coercion_counterexample:
  "truthy (JObj [(js ''id'', JArr [])])
   \<and> truthy (get (JObj [(js ''id'', JArr [])]) (js ''id''))
   \<and> toString decimalPlatform (get (JObj [(js ''id'', JArr [])]) (js ''id'')) = Inr []
   \<and> normalizeState decimalPlatform (uuidAmbient ''a'') (stateObject [JObj [(js ''id'', JArr [])]])
       = Inr (stateObject [habitObject (freshId decimalPlatform (uuidAmbient ''a'') 0) (js ''Untitled habit'') []])"
  by (simp add: stateObject_def habitObject_def normalizeState_def normalizeHabit_def habitId_def
      habitName_def habitLog_def)

subsection \<open>The name of a normalised habit\<close>

text \<open>
  C8, as the code has it. When normalizeState returns, the output habit at index \<open>i\<close>
  has the entry's name with the white space at both ends removed, if the entry is truthy
  and its name is a string that is not blank; in every other case it has the placeholder.
\<close>

theorem normalizeState_name:
  assumes "normalizeState P A x = Inr s" and "i < length (habitsInput x)"
  shows "(truthy (habitsInput x ! i) \<and> get (habitsInput x ! i) (js ''name'') = JStr n \<and> trim n \<noteq> []
          \<longrightarrow> get (habitsOf s ! i) (js ''name'') = JStr (trim n))
       \<and> (\<not> truthy (habitsInput x ! i) \<or> \<not> typeofString (get (habitsInput x ! i) (js ''name''))
            \<or> (\<exists>m. get (habitsInput x ! i) (js ''name'') = JStr m \<and> trim m = [])
          \<longrightarrow> get (habitsOf s ! i) (js ''name'') = JStr (js ''Untitled habit''))"
proof -
  from normalizeState_entries[OF assms(1)] assms(2)
  have "normalizeHabit P A i (habitsInput x ! i) = Inr (habitsOf s ! i)" by simp
  from normalizeHabit_parts[OF this]
  have g: "get (habitsOf s ! i) (js ''name'') = JStr (habitName (habitsInput x ! i))" by simp
  show ?thesis unfolding g
    by (cases "get (habitsInput x ! i) (js ''name'')") (auto simp: habitName_def)
qed

text \<open>The theorem at \<^verbatim>\<open>{habits: [{id: "x", name: " Water "}, 5]}\<close>.\<close>

theorem normalizeState_name_witness:
  "normalizeState decimalPlatform (uuidAmbient ''a'')
      (stateObject [JObj [(js ''id'', JStr (js ''x'')), (js ''name'', JStr (js '' Water ''))], JNum (Finite 5)]) =
     Inr (stateObject [habitObject (js ''x'') (js ''Water'') [],
                       habitObject (js ''a1'') (js ''Untitled habit'') []])
   \<and> trim (js '' Water '') = js ''Water''
   \<and> get (habitsOf (stateObject [habitObject (js ''x'') (js ''Water'') [],
                       habitObject (js ''a1'') (js ''Untitled habit'') []]) ! 0) (js ''name'') = JStr (js ''Water'')
   \<and> get (habitsOf (stateObject [habitObject (js ''x'') (js ''Water'') [],
                       habitObject (js ''a1'') (js ''Untitled habit'') []]) ! 1) (js ''name'')
      = JStr (js ''Untitled habit'')"
proof -
  let ?x = "stateObject [JObj [(js ''id'', JStr (js ''x'')), (js ''name'', JStr (js '' Water ''))], JNum (Finite 5)]"
  let ?s = "stateObject [habitObject (js ''x'') (js ''Water'') [],
                       habitObject (js ''a1'') (js ''Untitled habit'') []]"
  have n: "normalizeState decimalPlatform (uuidAmbient ''a'') ?x = Inr ?s"
    by (simp add: stateObject_def habitObject_def normalizeState_def normalizeHabit_def habitId_def
      habitName_def habitLog_def freshId_def uuidAmbient_def js_def trim_def isWhiteSpace_def
      digits.simps habitsInput_def)
  have l0: "0 < length (habitsInput ?x)" and l1: "1 < length (habitsInput ?x)"
    by (simp_all add: stateObject_def)
  have t: "trim (js '' Water '') = js ''Water''"
    by (simp add: js_def trim_def isWhiteSpace_def)
  have "get (habitsOf ?s ! 0) (js ''name'') = JStr (js ''Water'')"
    using normalizeState_name[OF n l0, of "js '' Water ''"] t
    by (simp add: stateObject_def js_def habitsInput_def)
  moreover have "get (habitsOf ?s ! 1) (js ''name'') = JStr (js ''Untitled habit'')"
    using normalizeState_name[OF n l1]
    by (simp add: stateObject_def)
  ultimately show ?thesis using n t by simp
qed

text \<open>
  C8 as claimed fails at the name \<^verbatim>\<open>" Water"\<close>: it is not blank, and the output name
  is \<^verbatim>\<open>"Water"\<close>, not the candidate's name.
\<close>

theorem trimmed_name_counterexample:
  "trim (js '' Water'') \<noteq> []
   \<and> normalizeState decimalPlatform (uuidAmbient ''a'')
        (stateObject [JObj [(js ''id'', JStr (js ''x'')), (js ''name'', JStr (js '' Water''))]])
       = Inr (stateObject [habitObject (js ''x'') (js ''Water'') []])
   \<and> js ''Water'' \<noteq> js '' Water''"
  by (simp add: stateObject_def habitObject_def normalizeState_def normalizeHabit_def habitId_def
      habitName_def habitLog_def js_def trim_def isWhiteSpace_def habitsInput_def)

subsection \<open>Idempotence of normalizeState\<close>

text \<open>
  C5, as the code has it. If every entry of the input is truthy and carries a truthy id
  whose string form exists and is not empty, then normalizeState returns the same state
  whatever the platform would have generated, and that state is a fixed point.
\<close>

theorem normalizeState_idempotent:
  assumes "list_all (hasUsableId P) (habitsInput x)"
  shows "\<exists>s. normalizeState P A1 x = Inr s \<and> normalizeState P A2 s = Inr s
             \<and> normalizeState P A3 x = Inr s"
proof -
  from mapHabits_usable[OF assms] obtain hs' where
    hs': "list_all normalizedHabit hs'" "\<And>A i. mapHabits P A i (habitsInput x) = Inr hs'"
    by blast
  let ?s = "JObj [(js ''habits'', JArr hs')]"
  have n: "normalizeState P A x = Inr ?s" for A
    by (simp add: normalizeState_def hs'(2))
  have "normalizedState ?s" unfolding normalizedState_iff using hs'(1) by simp
  then have "normalizeState P A2 ?s = Inr ?s" by (rule normalizeState_fixed)
  with n show ?thesis by blast
qed

text \<open>The theorem at \<^verbatim>\<open>{habits: [{id: 42}]}\<close>.\<close>

theorem normalizeState_idempotent_witness:
  "list_all (hasUsableId decimalPlatform) (habitsInput (stateObject [JObj [(js ''id'', JNum (Finite 42))]]))
   \<and> (\<exists>s. normalizeState decimalPlatform (uuidAmbient ''a'') (stateObject [JObj [(js ''id'', JNum (Finite 42))]]) = Inr s
         \<and> normalizeState decimalPlatform (uuidAmbient ''b'') s = Inr s
         \<and> normalizeState decimalPlatform (uuidAmbient ''c'') (stateObject [JObj [(js ''id'', JNum (Finite 42))]]) = Inr s)"
proof -
  have h: "list_all (hasUsableId decimalPlatform) (habitsInput (stateObject [JObj [(js ''id'', JNum (Finite 42))]]))"
    by (simp add: stateObject_def hasUsableId_def decimalPlatform_def decimalInt_def digits.simps)
  show ?thesis
    using h normalizeState_idempotent[OF h, of "uuidAmbient ''a''" "uuidAmbient ''b''" "uuidAmbient ''c''"]
    by simp
qed

text \<open>
  C5 as claimed fails at \<^verbatim>\<open>{habits: [{id: []}]}\<close>: the id is truthy, yet each call of
  normalizeState on the input generates an id, so that normalising the normalised state
  and normalising the input anew differ.
\<close>

theorem fresh_id_counterexample:
  "truthy (get (JObj [(js ''id'', JArr [])]) (js ''id''))
   \<and> normalizeState decimalPlatform (uuidAmbient ''a'') (stateObject [JObj [(js ''id'', JArr [])]])
       = Inr (stateObject [habitObject (js ''a0'') (js ''Untitled habit'') []])
   \<and> normalizeState decimalPlatform (uuidAmbient ''b'')
        (stateObject [habitObject (js ''a0'') (js ''Untitled habit'') []])
       = Inr (stateObject [habitObject (js ''a0'') (js ''Untitled habit'') []])
   \<and> normalizeState decimalPlatform (uuidAmbient ''b'') (stateObject [JObj [(js ''id'', JArr [])]])
       = Inr (stateObject [habitObject (js ''b0'') (js ''Untitled habit'') []])
   \<and> stateObject [habitObject (js ''a0'') (js ''Untitled habit'') []]
       \<noteq> stateObject [habitObject (js ''b0'') (js ''Untitled habit'') []]"
  by (simp add: stateObject_def habitObject_def normalizeState_def normalizeHabit_def habitId_def
      habitName_def habitLog_def freshId_def uuidAmbient_def trim_def isWhiteSpace_def js_def
      digits.simps habitsInput_def)

subsection \<open>Saving and loading\<close>

text \<open>
  C2, as the code has it. If saveState returns normally, \<^verbatim>\<open>crypto.randomUUID\<close> (where
  present) gives non-empty strings, and the state it installed holds only values JSON can
  carry (no \<^verbatim>\<open>undefined\<close>, NaN, infinity or \<^verbatim>\<open>-0\<close> in a log), then that state is
  normalizeState of the argument and a following loadState returns it.
\<close>

theorem save_then_load:
  assumes "saveState P A w x = (None, w')" and "uuidsNonEmpty A" and "jsonValue (state w')"
  shows "normalizeState P A x = Inr (state w') \<and> loadState P A' w' = state w'"
proof -
  from assms(1) obtain s where n: "normalizeState P A x = Inr s"
    and acc: "storageAccepts P (JSON_stringify s)"
    and w': "w' = w\<lparr>saveCalls := saveCalls w @ [x], state := s,
                     localStorage := (localStorage w)(STORAGE_KEY \<mapsto> JSON_stringify s)\<rparr>"
    by (auto simp: saveState_def Let_def split: sum.splits if_splits)
  have st: "state w' = s" by (simp add: w')
  have js: "JSON_stringify s = Json s"
    using assms(3) st by (simp add: JSON_stringify_def serialised_json)
  have "normalizedState s" using normalizeState_normalized[OF assms(2) n] .
  then have fx: "normalizeState P A' s = Inr s" by (rule normalizeState_fixed)
  have "loadState P A' w' = s"
    by (simp add: loadState_def w' js fx)
  with n st show ?thesis by simp
qed

text \<open>The theorem at a state with one habit, ticked on one day, saved into empty storage.\<close>

theorem save_then_load_witness:
  "saveState decimalPlatform (uuidAmbient ''a'') emptyWorld
      (stateObject [JObj [(js ''id'', JStr (js ''x'')), (js ''name'', JStr (js ''Water'')),
                          (js ''log'', JObj [(js ''2026-11-03'', JBool True)])]])
     = (None, emptyWorld\<lparr>saveCalls := [stateObject [habitObject (js ''x'') (js ''Water'') [(js ''2026-11-03'', JBool True)]]],
          state := stateObject [habitObject (js ''x'') (js ''Water'') [(js ''2026-11-03'', JBool True)]],
          localStorage := [STORAGE_KEY \<mapsto> Json (stateObject [habitObject (js ''x'') (js ''Water'') [(js ''2026-11-03'', JBool True)]])]\<rparr>)
   \<and> loadState decimalPlatform (uuidAmbient ''b'')
        (emptyWorld\<lparr>saveCalls := [stateObject [habitObject (js ''x'') (js ''Water'') [(js ''2026-11-03'', JBool True)]]],
          state := stateObject [habitObject (js ''x'') (js ''Water'') [(js ''2026-11-03'', JBool True)]],
          localStorage := [STORAGE_KEY \<mapsto> Json (stateObject [habitObject (js ''x'') (js ''Water'') [(js ''2026-11-03'', JBool True)]])]\<rparr>)
     = stateObject [habitObject (js ''x'') (js ''Water'') [(js ''2026-11-03'', JBool True)]]"
proof -
  let ?s = "stateObject [habitObject (js ''x'') (js ''Water'') [(js ''2026-11-03'', JBool True)]]"
  let ?w' = "emptyWorld\<lparr>saveCalls := [?s], state := ?s, localStorage := [STORAGE_KEY \<mapsto> Json ?s]\<rparr>"
  have n: "normalizeState decimalPlatform (uuidAmbient ''a'') ?s = Inr ?s"
    by (simp add: stateObject_def habitObject_def normalizeState_def normalizeHabit_def habitId_def
      habitName_def habitLog_def js_def trim_def isWhiteSpace_def habitsInput_def)
  have j: "JSON_stringify ?s = Json ?s"
    by (simp add: JSON_stringify_def stateObject_def habitObject_def)
  have sv: "saveState decimalPlatform (uuidAmbient ''a'') emptyWorld ?s = (None, ?w')"
    by (simp add: saveState_def n j Let_def emptyWorld_def)
  have st: "state ?w' = ?s" by simp
  have jv: "jsonValue (state ?w')"
    unfolding st by (simp add: stateObject_def habitObject_def)
  from save_then_load[OF sv uuidAmbient_nonEmpty jv, of "uuidAmbient ''b''"] sv
  show ?thesis by (simp add: habitObject_def)
qed

text \<open>
  C2 as claimed fails at a log that holds NaN: the state kept in memory has NaN, the
  stored text has \<^verbatim>\<open>null\<close>, and loadState returns a state with \<^verbatim>\<open>null\<close>.
\<close>

theorem lossy_log_counterexample:
  "normalizeState decimalPlatform (uuidAmbient ''a'')
      (stateObject [habitObject (js ''x'') (js ''Water'') [(js ''k'', JNum NaN)]])
     = Inr (stateObject [habitObject (js ''x'') (js ''Water'') [(js ''k'', JNum NaN)]])
   \<and> fst (saveState decimalPlatform (uuidAmbient ''a'') emptyWorld
            (stateObject [habitObject (js ''x'') (js ''Water'') [(js ''k'', JNum NaN)]])) = None
   \<and> loadState decimalPlatform (uuidAmbient ''b'')
        (snd (saveState decimalPlatform (uuidAmbient ''a'') emptyWorld
               (stateObject [habitObject (js ''x'') (js ''Water'') [(js ''k'', JNum NaN)]])))
     = stateObject [habitObject (js ''x'') (js ''Water'') [(js ''k'', JNull)]]
   \<and> stateObject [habitObject (js ''x'') (js ''Water'') [(js ''k'', JNull)]]
     \<noteq> stateObject [habitObject (js ''x'') (js ''Water'') [(js ''k'', JNum NaN)]]"
proof -
  let ?x = "stateObject [habitObject (js ''x'') (js ''Water'') [(js ''k'', JNum NaN)]]"
  let ?y = "stateObject [habitObject (js ''x'') (js ''Water'') [(js ''k'', JNull)]]"
  have n: "normalizeState decimalPlatform A ?x = Inr ?x" for A
    by (simp add: stateObject_def habitObject_def normalizeState_def normalizeHabit_def habitId_def
      habitName_def habitLog_def js_def trim_def isWhiteSpace_def habitsInput_def)
  have m: "normalizeState decimalPlatform A ?y = Inr ?y" for A
    by (simp add: stateObject_def habitObject_def normalizeState_def normalizeHabit_def habitId_def
      habitName_def habitLog_def js_def trim_def isWhiteSpace_def habitsInput_def)
  have j: "JSON_stringify ?x = Json ?y"
    by (simp add: JSON_stringify_def stateObject_def habitObject_def)
  have sv: "saveState decimalPlatform (uuidAmbient ''a'') emptyWorld ?x
           = (None, emptyWorld\<lparr>saveCalls := [?x], state := ?x, localStorage := [STORAGE_KEY \<mapsto> Json ?y]\<rparr>)"
    by (simp add: saveState_def n j Let_def emptyWorld_def)
  have ld: "loadState decimalPlatform (uuidAmbient ''b'')
             (emptyWorld\<lparr>saveCalls := [?x], state := ?x, localStorage := [STORAGE_KEY \<mapsto> Json ?y]\<rparr>) = ?y"
    by (simp add: loadState_def m)
  have ne: "?y \<noteq> ?x" by (simp add: stateObject_def habitObject_def)
  show ?thesis using n sv ld ne by simp
qed

subsection \<open>Rejected imports\<close>

text \<open>
  C6. Unless the chosen file's text parses to a value whose \<^verbatim>\<open>habits\<close> is an array, the
  import handler changes nothing but the notices and the file input: the state in memory,
  the storage and the record of saveState calls are as before, and the user is told that
  the import failed. This covers a file that cannot be read, a text that does not parse,
  and a parsed value without an array under \<^verbatim>\<open>habits\<close>.
\<close>

theorem import_rejected:
  assumes "\<forall>data. file = Inr (Json data) \<longrightarrow> \<not> isArray (get data (js ''habits''))"
  shows "importChange P A w (Some file) =
           w\<lparr>alerts := alerts w @ [js ''Import failed. Please check the JSON file format.''],
             fileInputValue := []\<rparr>"
proof -
  have "\<exists>e. importAttempt P A w file = Inl (e, w)"
  proof (cases "file")
    case (Inl e)
    then show ?thesis by (simp add: importAttempt_def)
  next
    case (Inr raw)
    show ?thesis
    proof (cases raw)
      case (Json data)
      with Inr assms have "\<not> isArray (get data (js ''habits''))" by simp
      with Inr Json show ?thesis
        by (simp add: importAttempt_def member_def)
    qed (simp_all add: Inr importAttempt_def)
  qed
  then show ?thesis by (auto simp: importChange_def alert_def)
qed

text \<open>The theorem at the text \<^verbatim>\<open>{"habits": "not-an-array"}\<close>.\<close>

theorem import_rejected_witness:
  "importChange decimalPlatform (uuidAmbient ''a'') emptyWorld
      (Some (Inr (Json (JObj [(js ''habits'', JStr (js ''not-an-array''))]))))
    = emptyWorld\<lparr>alerts := [js ''Import failed. Please check the JSON file format.'']\<rparr>"
proof -
  have h: "\<forall>data. (Inr (Json (JObj [(js ''habits'', JStr (js ''not-an-array''))])) :: js_error + raw_text) = Inr (Json data)
        \<longrightarrow> \<not> isArray (get data (js ''habits''))"
    by simp
  show ?thesis
    using import_rejected[OF h, of decimalPlatform "uuidAmbient ''a''" emptyWorld]
    by (simp add: emptyWorld_def)
qed

subsection \<open>The frame of a day-cell click\<close>

text \<open>
  C9. On an already-normalised state, a click on a day cell leaves the state normalised
  with as many habits as before; every habit whose id is not the clicked habit id is
  unchanged, and every habit keeps its id, its name and its log entries at all keys but
  the clicked day key. This holds whether or not the storage takes the write.
\<close>

theorem dayCellClick_frame:
  assumes "normalizedState (state w)"
  shows "normalizedState (state (dayCellClick P A w a dayKey))
     \<and> length (habitsOf (state (dayCellClick P A w a dayKey))) = length (habitsOf (state w))
     \<and> (\<forall>i<length (habitsOf (state w)).
          (get (habitsOf (state w) ! i) (js ''id'') \<noteq> datasetValue a
             \<longrightarrow> habitsOf (state (dayCellClick P A w a dayKey)) ! i = habitsOf (state w) ! i)
          \<and> get (habitsOf (state (dayCellClick P A w a dayKey)) ! i) (js ''id'')
              = get (habitsOf (state w) ! i) (js ''id'')
          \<and> get (habitsOf (state (dayCellClick P A w a dayKey)) ! i) (js ''name'')
              = get (habitsOf (state w) ! i) (js ''name'')
          \<and> (\<forall>k. k \<noteq> dayKey \<longrightarrow>
                get (get (habitsOf (state (dayCellClick P A w a dayKey)) ! i) (js ''log'')) k
                = get (get (habitsOf (state w) ! i) (js ''log'')) k))"
proof -
  from assms obtain hs where w: "state w = stateObject hs" and hs: "list_all normalizedHabit hs"
    by (auto simp: normalizedState_iff stateObject_def)
  from mapToggle_normalized[OF hs, of P "datasetValue a" dayKey] obtain hs' where
    t: "mapToggle P (datasetValue a) dayKey hs = Inr hs'" and n: "list_all normalizedHabit hs'"
    and f: "list_all2 (toggleFrame (datasetValue a) dayKey) hs hs'"
    by blast
  have s: "state (dayCellClick P A w a dayKey) = stateObject hs'"
    using dayCellClick_state[OF w t n] .
  have h1: "habitsOf (state w) = hs" by (simp add: w stateObject_def habitsOf_def)
  have h2: "habitsOf (state (dayCellClick P A w a dayKey)) = hs'"
    by (simp add: s stateObject_def habitsOf_def)
  have "normalizedState (state (dayCellClick P A w a dayKey))"
    unfolding s normalizedState_iff stateObject_def using n by simp
  moreover have "length hs' = length hs" using f by (simp add: list_all2_lengthD)
  moreover have "toggleFrame (datasetValue a) dayKey (hs ! i) (hs' ! i)" if "i < length hs" for i
    using f that by (simp add: list_all2_nthD)
  ultimately show ?thesis
    by (simp add: h1 h2 toggleFrame_def)
qed

text \<open>The theorem at two habits, with a click on the first one.\<close>

theorem dayCellClick_frame_witness:
  "normalizedState (state twoHabitsWorld)
   \<and> state (dayCellClick decimalPlatform (uuidAmbient ''a'') twoHabitsWorld (Some (js ''x'')) (js ''2026-11-03''))
       = stateObject [habitObject (js ''x'') (js ''Water'') [(js ''2026-11-03'', JBool True)],
                      habitObject (js ''y'') (js ''Run'') []]
   \<and> normalizedState (state (dayCellClick decimalPlatform (uuidAmbient ''a'') twoHabitsWorld (Some (js ''x'')) (js ''2026-11-03'')))
   \<and> length (habitsOf (state (dayCellClick decimalPlatform (uuidAmbient ''a'') twoHabitsWorld (Some (js ''x'')) (js ''2026-11-03''))))
       = length (habitsOf (state twoHabitsWorld))"
proof -
  have h: "normalizedState (state twoHabitsWorld)"
    by (simp add: twoHabitsWorld_def normalizedState_iff normalizedHabit_iff stateObject_def
        habitObject_def js_def trim_def isWhiteSpace_def)
  have t: "mapToggle decimalPlatform (datasetValue (Some (js ''x''))) (js ''2026-11-03'')
             [habitObject (js ''x'') (js ''Water'') [], habitObject (js ''y'') (js ''Run'') []]
           = Inr [habitObject (js ''x'') (js ''Water'') [(js ''2026-11-03'', JBool True)],
                  habitObject (js ''y'') (js ''Run'') []]"
    by (simp add: habitObject_def member_def datasetValue_def toggled_def assignBool_def
        objectPrototypeNames_def js_def)
  have n: "list_all normalizedHabit [habitObject (js ''x'') (js ''Water'') [(js ''2026-11-03'', JBool True)],
                  habitObject (js ''y'') (js ''Run'') []]"
    by (simp add: normalizedHabit_iff habitObject_def js_def trim_def isWhiteSpace_def)
  have s: "state twoHabitsWorld = stateObject [habitObject (js ''x'') (js ''Water'') [], habitObject (js ''y'') (js ''Run'') []]"
    by (simp add: twoHabitsWorld_def)
  show ?thesis
    using h dayCellClick_state[OF s t n]
      dayCellClick_frame[OF h, of decimalPlatform "uuidAmbient ''a''" "Some (js ''x'')" "js ''2026-11-03''"]
    by simp
qed

subsection \<open>The streak\<close>






end
